theory Spec2Isabelle
  imports Complex_Main
begin

section \<open>Floating-point values and Python errors\<close>

text \<open>
  A Python float (and a numpy float64) is a finite number, one of the two infinities, or
  NaN. The finite part is carried as a real; wherever the code computes a new finite
  number the exact result goes through a rounding function \<open>rnd\<close>, which is left open
  (it may round, and it may overflow to an infinity). The sign of zero is not modelled.
\<close>

datatype fval = Fin real | PInf | NInf | NaN

datatype error = ValueError | IndexError | OverflowError | OdrError

fun isnan :: "fval \<Rightarrow> bool" where
  "isnan NaN = True"
| "isnan _ = False"

fun isfinite :: "fval \<Rightarrow> bool" where
  "isfinite (Fin _) = True"
| "isfinite _ = False"

definition inf_times :: "real \<Rightarrow> fval" where
  \<comment> \<open>an infinity of positive sign times the finite number \<open>a\<close>\<close>
  "inf_times a = (if a = 0 then NaN else if 0 < a then PInf else NInf)"

fun fmul :: "(real \<Rightarrow> fval) \<Rightarrow> fval \<Rightarrow> fval \<Rightarrow> fval" where
  "fmul rnd (Fin a) (Fin b) = rnd (a * b)"
| "fmul rnd NaN _ = NaN"
| "fmul rnd _ NaN = NaN"
| "fmul rnd (Fin a) PInf = inf_times a"
| "fmul rnd (Fin a) NInf = inf_times (- a)"
| "fmul rnd PInf (Fin b) = inf_times b"
| "fmul rnd NInf (Fin b) = inf_times (- b)"
| "fmul rnd PInf PInf = PInf"
| "fmul rnd PInf NInf = NInf"
| "fmul rnd NInf PInf = NInf"
| "fmul rnd NInf NInf = PInf"

fun fadd :: "(real \<Rightarrow> fval) \<Rightarrow> fval \<Rightarrow> fval \<Rightarrow> fval" where
  "fadd rnd (Fin a) (Fin b) = rnd (a + b)"
| "fadd rnd NaN _ = NaN"
| "fadd rnd _ NaN = NaN"
| "fadd rnd PInf NInf = NaN"
| "fadd rnd NInf PInf = NaN"
| "fadd rnd PInf _ = PInf"
| "fadd rnd _ PInf = PInf"
| "fadd rnd NInf _ = NInf"
| "fadd rnd _ NInf = NInf"

fun np_log :: "(real \<Rightarrow> fval) \<Rightarrow> fval \<Rightarrow> fval" where
  "np_log rnd (Fin x) = (if 0 < x then rnd (ln x) else if x = 0 then NInf else NaN)"
| "np_log rnd PInf = PInf"
| "np_log rnd NInf = NaN"
| "np_log rnd NaN = NaN"

fun np_exp :: "(real \<Rightarrow> fval) \<Rightarrow> fval \<Rightarrow> fval" where
  "np_exp rnd (Fin x) = rnd (exp x)"
| "np_exp rnd PInf = PInf"
| "np_exp rnd NInf = Fin 0"
| "np_exp rnd NaN = NaN"

fun py_int :: "fval \<Rightarrow> error + int" where
  \<comment> \<open>\<open>int(x)\<close> on a float: truncation towards zero; NaN and the infinities raise\<close>
  "py_int (Fin x) = Inr (if 0 \<le> x then \<lfloor>x\<rfloor> else \<lceil>x\<rceil>)"
| "py_int NaN = Inl ValueError"
| "py_int PInf = Inl OverflowError"
| "py_int NInf = Inl OverflowError"

definition bind_err :: "error + 'a \<Rightarrow> ('a \<Rightarrow> error + 'b) \<Rightarrow> error + 'b" where
  \<comment> \<open>sequencing: an exception raised by the first step skips the rest\<close>
  "bind_err m f = (case m of Inl e \<Rightarrow> Inl e | Inr v \<Rightarrow> f v)"

section \<open>The numpy array operations the module uses\<close>

definition np_isnan :: "fval list \<Rightarrow> bool list" where
  "np_isnan a = map isnan a"

definition np_isfinite :: "fval list \<Rightarrow> bool list" where
  "np_isfinite a = map isfinite a"

definition np_not :: "bool list \<Rightarrow> bool list" where
  \<comment> \<open>\<open>~a\<close> on a boolean array\<close>
  "np_not a = map Not a"

definition np_and :: "bool list \<Rightarrow> bool list \<Rightarrow> error + bool list" where
  \<comment> \<open>\<open>a & b\<close>: elementwise, an array of length 1 is broadcast, other length
      mismatches raise\<close>
  "np_and a b =
     (if length a = length b then Inr (map2 (\<and>) a b)
      else if length a = 1 then Inr (map (\<lambda>y. hd a \<and> y) b)
      else if length b = 1 then Inr (map (\<lambda>x. x \<and> hd b) a)
      else Inl ValueError)"

definition np_iand :: "bool list \<Rightarrow> bool list \<Rightarrow> error + bool list" where
  \<comment> \<open>\<open>a &= b\<close>: the result keeps the shape of \<open>a\<close>, so only \<open>b\<close> can be broadcast\<close>
  "np_iand a b =
     (if length a = length b then Inr (map2 (\<and>) a b)
      else if length b = 1 then Inr (map (\<lambda>x. x \<and> hd b) a)
      else Inl ValueError)"

definition bool_index :: "'a list \<Rightarrow> bool list \<Rightarrow> error + 'a list" where
  \<comment> \<open>\<open>arr[mask]\<close>: the entries at the true positions, in order; the mask must have
      the length of the array, except that an empty mask selects nothing from any array\<close>
  "bool_index arr msk =
     (if length arr = length msk \<or> msk = [] then Inr (map fst (filter snd (zip arr msk)))
      else Inl IndexError)"

definition np_sum :: "bool list \<Rightarrow> int" where
  \<comment> \<open>\<open>np.sum(mask)\<close>: the number of true entries\<close>
  "np_sum msk = int (length (filter id msk))"

definition np_take :: "'a list \<Rightarrow> int list \<Rightarrow> error + 'a list" where
  \<comment> \<open>\<open>arr[idxs]\<close> with an integer index array: negative indices count from the end,
      an index out of range raises\<close>
  "np_take arr idxs =
     (let n = int (length arr)
      in if list_all (\<lambda>i. - n \<le> i \<and> i < n) idxs
         then Inr (map (\<lambda>i. arr ! nat (if i < 0 then i + n else i)) idxs)
         else Inl IndexError)"

section \<open>The scipy and numpy.random routines, as parameters\<close>

text \<open>
  \<open>scipy.stats.linregress\<close>, \<open>spearmanr\<close>, \<open>pearsonr\<close>, the \<open>scipy.odr\<close> solver and
  \<open>numpy.random.choice\<close> are not code of this module. The functions below take them as
  parameters. Each may raise. The solver receives the model function, the starting
  parameters and the data, and returns its output object, of which the module reads
  \<open>beta\<close>; \<open>info\<close> is the stop code of ODRPACK (1, 2, 3: converged; 4: iteration limit
  reached; 5 and above: questionable results or fatal errors). \<open>choice\<close> draws from
  numpy's global generator, whose state \<open>'g\<close> is passed in and returned.
\<close>

record odr_output =
  beta :: "fval list"
  info :: int

definition odr_converged :: "odr_output \<Rightarrow> bool" where
  "odr_converged out = (info out = 1 \<or> info out = 2 \<or> info out = 3)"

record 'g lib =
  rnd :: "real \<Rightarrow> fval"
  linregress :: "fval list \<Rightarrow> fval list \<Rightarrow> error + (fval \<times> fval \<times> fval \<times> fval \<times> fval)"
  pearsonr :: "fval list \<Rightarrow> fval list \<Rightarrow> error + (fval \<times> fval)"
  odr_run :: "(fval list \<Rightarrow> fval list \<Rightarrow> error + fval list) \<Rightarrow> fval list \<Rightarrow>
                fval list \<Rightarrow> fval list \<Rightarrow> error + odr_output"
  choice :: "'g \<Rightarrow> int \<Rightarrow> int \<Rightarrow> (error + int list) \<times> 'g"

section \<open>power\_laws.py\<close>

definition lin_f :: "(real \<Rightarrow> fval) \<Rightarrow> fval list \<Rightarrow> fval list \<Rightarrow> error + fval list" where
  \<comment> \<open>\<open>_lin_f(p, x) = (p[0] * x) + p[1]\<close>\<close>
  "lin_f r p x =
     (case p of
        p0 # p1 # _ \<Rightarrow> Inr (map (\<lambda>xi. fadd r (fmul r p0 xi) p1) x)
      | _ \<Rightarrow> Inl IndexError)"

definition slope_one :: "(real \<Rightarrow> fval) \<Rightarrow> fval list \<Rightarrow> fval list \<Rightarrow> error + fval list" where
  \<comment> \<open>\<open>_slope_one(p, x) = x + p[0]\<close>\<close>
  "slope_one r p x =
     (case p of
        p0 # _ \<Rightarrow> Inr (map (\<lambda>xi. fadd r xi p0) x)
      | [] \<Rightarrow> Inl IndexError)"

definition log_mask :: "fval list \<Rightarrow> fval list \<Rightarrow> error + bool list" where
  \<comment> \<open>\<open>mask = ~np.isnan(log_xs) & ~np.isnan(log_ys)\<close>\<close>
  "log_mask log_xs log_ys = np_and (np_not (np_isnan log_xs)) (np_not (np_isnan log_ys))"

definition masked_pair ::
  "fval list \<Rightarrow> fval list \<Rightarrow> bool list \<Rightarrow> error + (fval list \<times> fval list)" where
  \<comment> \<open>\<open>xs_ = log_xs[mask]; ys_ = log_ys[mask]\<close>\<close>
  "masked_pair log_xs log_ys msk =
     bind_err (bool_index log_xs msk) (\<lambda>xs'.
     bind_err (bool_index log_ys msk) (\<lambda>ys'.
     Inr (xs', ys')))"

definition log_spearmanr ::
  "(fval list \<Rightarrow> fval list \<Rightarrow> error + 'r) \<Rightarrow> fval list \<Rightarrow> fval list \<Rightarrow> error + 'r" where
  "log_spearmanr spearmanr log_xs log_ys =
     bind_err (log_mask log_xs log_ys) (\<lambda>msk.
     bind_err (masked_pair log_xs log_ys msk) (\<lambda>(xs', ys').
     spearmanr xs' ys'))"

definition log_pearsonr ::
  "(fval list \<Rightarrow> fval list \<Rightarrow> error + 'r) \<Rightarrow> fval list \<Rightarrow> fval list \<Rightarrow> error + 'r" where
  "log_pearsonr pearsonr' log_xs log_ys =
     bind_err (log_mask log_xs log_ys) (\<lambda>msk.
     bind_err (masked_pair log_xs log_ys msk) (\<lambda>(xs', ys').
     pearsonr' xs' ys'))"

definition log_linregress ::
  "(fval list \<Rightarrow> fval list \<Rightarrow> error + 'r) \<Rightarrow> fval list \<Rightarrow> fval list \<Rightarrow> error + 'r" where
  "log_linregress linregress' log_xs log_ys =
     bind_err (log_mask log_xs log_ys) (\<lambda>msk.
     bind_err (masked_pair log_xs log_ys msk) (\<lambda>(xs', ys').
     linregress' xs' ys'))"

definition fit_power_law ::
  "'g lib \<Rightarrow> fval list \<Rightarrow> fval list \<Rightarrow> error + (fval \<times> fval \<times> fval \<times> fval \<times> fval)" where
  "fit_power_law L log_xs log_ys =
     bind_err (log_mask log_xs log_ys) (\<lambda>msk.
     bind_err (masked_pair log_xs log_ys msk) (\<lambda>(xs', ys').
     bind_err (linregress L xs' ys') (\<lambda>(slope, intercept, r_val, p_val, stderr).
     Inr (slope, np_exp (rnd L) intercept, r_val, p_val, stderr))))"

definition odr_mask :: "fval list \<Rightarrow> fval list \<Rightarrow> error + bool list" where
  \<comment> \<open>\<open>mask = ~np.isnan(log_xs) & ~np.isnan(log_ys)\<close> followed by
      \<open>mask &= np.isfinite(log_xs) & np.isfinite(log_ys)\<close>\<close>
  "odr_mask log_xs log_ys =
     bind_err (log_mask log_xs log_ys) (\<lambda>msk.
     bind_err (np_and (np_isfinite log_xs) (np_isfinite log_ys)) (\<lambda>fin.
     np_iand msk fin))"

definition odr_params :: "bool \<Rightarrow> odr_output \<Rightarrow> error + (fval \<times> fval)" where
  \<comment> \<open>\<open>slope = 1; intercept = out.beta[0]\<close> when \<open>unit_exp\<close>, else
      \<open>slope, intercept = out.beta\<close>\<close>
  "odr_params unit_exp out =
     (if unit_exp
      then (case beta out of b0 # _ \<Rightarrow> Inr (Fin 1, b0) | [] \<Rightarrow> Inl IndexError)
      else (case beta out of [s, i] \<Rightarrow> Inr (s, i) | _ \<Rightarrow> Inl ValueError))"

definition fit_power_law_odr ::
  "'g lib \<Rightarrow> fval list \<Rightarrow> fval list \<Rightarrow> bool \<Rightarrow> error + (fval \<times> fval \<times> fval)" where
  "fit_power_law_odr L log_xs log_ys unit_exp =
     bind_err (odr_mask log_xs log_ys) (\<lambda>msk.
     bind_err (masked_pair log_xs log_ys msk) (\<lambda>(xs', ys').
     bind_err (linregress L xs' ys') (\<lambda>(ols_slope, ols_intercept, _).
     let f = (if unit_exp then slope_one (rnd L) else lin_f (rnd L));
         beta0 = (if unit_exp then [ols_intercept] else [ols_slope, ols_intercept])
     in
     bind_err (odr_run L f beta0 xs' ys') (\<lambda>out.
     bind_err (odr_params unit_exp out) (\<lambda>(slope, intercept).
     bind_err (pearsonr L xs' ys') (\<lambda>(r, P).
     Inr (slope, np_exp (rnd L) intercept, r)))))))"

fun boot_loop ::
  "'g lib \<Rightarrow> fval list \<Rightarrow> fval list \<Rightarrow> int \<Rightarrow> int \<Rightarrow> nat \<Rightarrow>
   fval list \<times> fval list \<times> fval list \<Rightarrow> 'g \<Rightarrow>
   (error + fval list \<times> fval list \<times> fval list) \<times> 'g" where
  \<comment> \<open>the body of \<open>for _ in range(rounds)\<close>, with the rounds still to run\<close>
  "boot_loop L masked_xs masked_ys tot n 0 acc g = (Inr acc, g)"
| "boot_loop L masked_xs masked_ys tot n (Suc k) (exponents, prefactors, rs) g =
     (case choice L g tot n of
        (Inl e, g') \<Rightarrow> (Inl e, g')
      | (Inr idxs, g') \<Rightarrow>
          (case bind_err (np_take masked_xs idxs) (\<lambda>xs_sub.
                bind_err (np_take masked_ys idxs) (\<lambda>ys_sub.
                fit_power_law_odr L (map (np_log (rnd L)) xs_sub)
                  (map (np_log (rnd L)) ys_sub) False)) of
             Inl e \<Rightarrow> (Inl e, g')
           | Inr (exp', pre, r) \<Rightarrow>
               boot_loop L masked_xs masked_ys tot n k
                 (exponents @ [exp'], prefactors @ [pre], rs @ [r]) g'))"

definition subset_size :: "(real \<Rightarrow> fval) \<Rightarrow> fval \<Rightarrow> int \<Rightarrow> error + int" where
  \<comment> \<open>\<open>subset_size = int(fraction * tot)\<close>\<close>
  "subset_size r fraction tot = py_int (fmul r fraction (Fin (of_int tot)))"

definition boot_setup ::
  "'g lib \<Rightarrow> fval list \<Rightarrow> fval list \<Rightarrow> fval \<Rightarrow>
   error + (fval list \<times> fval list \<times> int \<times> int)" where
  \<comment> \<open>the statements before the loop: the mask, the masked arrays, \<open>tot\<close> and
      \<open>subset_size\<close>\<close>
  "boot_setup L xs ys fraction =
     bind_err (np_and (np_isfinite xs) (np_isfinite ys)) (\<lambda>msk.
     bind_err (masked_pair xs ys msk) (\<lambda>(masked_xs, masked_ys).
     let tot = np_sum msk in
     bind_err (subset_size (rnd L) fraction tot) (\<lambda>n.
     Inr (masked_xs, masked_ys, tot, n))))"

definition bootstrap_power_law_odr ::
  "'g lib \<Rightarrow> fval list \<Rightarrow> fval list \<Rightarrow> fval \<Rightarrow> int \<Rightarrow> 'g \<Rightarrow>
   (error + fval list \<times> fval list \<times> fval list) \<times> 'g" where
  "bootstrap_power_law_odr L xs ys fraction rounds g =
     (case boot_setup L xs ys fraction of
        Inl e \<Rightarrow> (Inl e, g)
      | Inr (masked_xs, masked_ys, tot, n) \<Rightarrow>
          boot_loop L masked_xs masked_ys tot n (nat rounds) ([], [], []) g)"

section \<open>Rows of a paired sample\<close>

text \<open>
  The same filtering said without masks: pair the two sequences up and keep the rows
  that satisfy a predicate, in order.
\<close>

definition both_not_nan :: "fval \<Rightarrow> fval \<Rightarrow> bool" where
  "both_not_nan x y = (\<not> isnan x \<and> \<not> isnan y)"

definition both_finite :: "fval \<Rightarrow> fval \<Rightarrow> bool" where
  "both_finite x y = (isfinite x \<and> isfinite y)"

definition rows_where ::
  "(fval \<Rightarrow> fval \<Rightarrow> bool) \<Rightarrow> fval list \<Rightarrow> fval list \<Rightarrow> (fval \<times> fval) list" where
  "rows_where P xs ys = filter (\<lambda>(x, y). P x y) (zip xs ys)"

section \<open>The bootstrap as the specification words it\<close>






section \<open>Library contracts and library instances\<close>

text \<open>
  What the properties below ask of the library, where they ask anything: that the
  regression rejects empty input and the correlation rejects fewer than two points, that
  a successful draw returns as many indices as were asked for, and that the indices it
  returns lie in the range it was given.
\<close>

definition rejects_short :: "'g lib \<Rightarrow> bool" where
  "rejects_short L =
     ((\<forall>a b. a = [] \<or> b = [] \<longrightarrow> isl (linregress L a b)) \<and>
      (\<forall>a b. length a < 2 \<longrightarrow> isl (pearsonr L a b)))"

definition draws_size :: "'g lib \<Rightarrow> bool" where
  "draws_size L =
     (\<forall>g tot n idxs g'. choice L g tot n = (Inr idxs, g') \<longrightarrow> int (length idxs) = n)"


definition with_info :: "int \<Rightarrow> 'g lib \<Rightarrow> 'g lib" where
  \<comment> \<open>the same library, with the stop code of every solver output replaced by \<open>k\<close>\<close>
  "with_info k L =
     L\<lparr>odr_run := (\<lambda>f beta0 a b.
            case odr_run L f beta0 a b of
              Inl e \<Rightarrow> Inl e
            | Inr out \<Rightarrow> Inr (out\<lparr>info := k\<rparr>))\<rparr>"

text \<open>
  Small library instances, to run the module on concrete data. The statistic
  \<open>echo_stat\<close> answers with the data it was handed. The regression and the
  correlation of \<open>stub_lib\<close> reject short input and otherwise give fixed answers; its
  solver returns the starting parameters with stop code 1; its generator state is a
  counter and a draw walks cyclically through the index range. \<open>stalled_lib\<close> differs
  in the solver's stop code, 4 (iteration limit reached).
\<close>

definition echo_stat :: "fval list \<Rightarrow> fval list \<Rightarrow> error + (fval list \<times> fval list)" where
  "echo_stat a b = Inr (a, b)"

definition stub_linregress ::
  "fval list \<Rightarrow> fval list \<Rightarrow> error + (fval \<times> fval \<times> fval \<times> fval \<times> fval)" where
  "stub_linregress a b =
     (if a = [] \<or> b = [] then Inl ValueError
      else if length a < 2 then Inr (NaN, NaN, Fin 0, NaN, NaN)
      else Inr (Fin 1, Fin 0, Fin 1, Fin 0, Fin 0))"

definition stub_pearsonr :: "fval list \<Rightarrow> fval list \<Rightarrow> error + (fval \<times> fval)" where
  "stub_pearsonr a b = (if length a < 2 then Inl ValueError else Inr (Fin 1, Fin 0))"

definition stub_odr_run ::
  "(fval list \<Rightarrow> fval list \<Rightarrow> error + fval list) \<Rightarrow> fval list \<Rightarrow> fval list \<Rightarrow> fval list \<Rightarrow>
   error + odr_output" where
  "stub_odr_run f beta0 a b = Inr \<lparr>beta = beta0, info = 1\<rparr>"

definition stalled_odr_run ::
  "(fval list \<Rightarrow> fval list \<Rightarrow> error + fval list) \<Rightarrow> fval list \<Rightarrow> fval list \<Rightarrow> fval list \<Rightarrow>
   error + odr_output" where
  "stalled_odr_run f beta0 a b = Inr \<lparr>beta = beta0, info = 4\<rparr>"

definition stub_choice :: "nat \<Rightarrow> int \<Rightarrow> int \<Rightarrow> (error + int list) \<times> nat" where
  "stub_choice g tot n =
     (if n < 0 \<or> (tot \<le> 0 \<and> 0 < n) then (Inl ValueError, g)
      else (Inr (map (\<lambda>k. (int g + int k) mod tot) [0..<nat n]), g + nat n))"

definition stub_lib :: "nat lib" where
  "stub_lib = \<lparr>rnd = Fin, linregress = stub_linregress, pearsonr = stub_pearsonr,
                odr_run = stub_odr_run, choice = stub_choice\<rparr>"

definition stalled_lib :: "nat lib" where
  "stalled_lib = stub_lib\<lparr>odr_run := stalled_odr_run\<rparr>"

section \<open>Masks and rows\<close>

lemma bind_err_Inl [simp]: "bind_err (Inl e) f = Inl e"
  by (simp add: bind_err_def)

lemma bind_err_Inr [simp]: "bind_err (Inr v) f = f v"
  by (simp add: bind_err_def)

lemmas stub_defs = stub_lib_def stub_linregress_def stub_pearsonr_def stub_odr_run_def
  stub_choice_def

lemmas fit_defs = fit_power_law_odr_def odr_mask_def log_mask_def masked_pair_def
  bool_index_def np_and_def np_iand_def np_not_def np_isnan_def np_isfinite_def odr_params_def

lemmas boot_defs = bootstrap_power_law_odr_def boot_setup_def subset_size_def np_sum_def
  np_take_def

lemma log_mask_eq:
  "length xs = length ys \<Longrightarrow> log_mask xs ys = Inr (map2 both_not_nan xs ys)"
  by (simp add: log_mask_def np_and_def np_not_def np_isnan_def zip_map_map both_not_nan_def
      case_prod_unfold)

lemma isfinite_not_nan: "isfinite x \<Longrightarrow> \<not> isnan x"
  by (cases x) simp_all

lemma isfinite_mask_eq:
  "length xs = length ys \<Longrightarrow>
   np_and (np_isfinite xs) (np_isfinite ys) = Inr (map2 both_finite xs ys)"
  by (simp add: np_and_def np_isfinite_def zip_map_map both_finite_def case_prod_unfold)

lemma odr_mask_eq:
  assumes len: "length xs = length ys"
  shows "odr_mask xs ys = Inr (map2 both_finite xs ys)"
proof -
  have "map2 (\<and>) (map2 both_not_nan xs ys) (map2 both_finite xs ys) = map2 both_finite xs ys"
    using len
    by (induction xs ys rule: list_induct2)
      (auto simp: both_finite_def both_not_nan_def isfinite_not_nan)
  then show ?thesis
    using len by (simp add: odr_mask_def log_mask_eq isfinite_mask_eq np_iand_def)
qed

lemma bool_index_fst:
  "length xs = length ys \<Longrightarrow>
   bool_index xs (map2 P xs ys) = Inr (map fst (rows_where P xs ys))"
  unfolding bool_index_def rows_where_def
  by (induction xs ys rule: list_induct2) auto

lemma bool_index_snd:
  "length xs = length ys \<Longrightarrow>
   bool_index ys (map2 P xs ys) = Inr (map snd (rows_where P xs ys))"
  unfolding bool_index_def rows_where_def
  by (induction xs ys rule: list_induct2) auto

lemma masked_pair_eq:
  "length xs = length ys \<Longrightarrow>
   masked_pair xs ys (map2 P xs ys) =
     Inr (map fst (rows_where P xs ys), map snd (rows_where P xs ys))"
  by (simp add: masked_pair_def bool_index_fst bool_index_snd)

lemma rows_where_length_le: "length (rows_where P xs ys) \<le> length xs"
proof -
  have "length (rows_where P xs ys) \<le> length (zip xs ys)"
    unfolding rows_where_def by (rule length_filter_le)
  then show ?thesis by simp
qed

lemma np_sum_map2: "np_sum (map2 P xs ys) = int (length (rows_where P xs ys))"
proof -
  have "length (filter id (map2 P xs ys)) = length (filter (\<lambda>(x, y). P x y) (zip xs ys))"
    by (simp add: filter_map comp_def case_prod_unfold)
  then show ?thesis by (simp add: np_sum_def rows_where_def)
qed

lemma np_take_length: "np_take a idxs = Inr s \<Longrightarrow> length s = length idxs"
  by (auto simp: np_take_def Let_def split: if_splits)


section \<open>The masking wrappers\<close>

text \<open>
  Claim C5, as the code has it. For paired sequences of equal length, each of
  \<open>log_spearmanr\<close>, \<open>log_pearsonr\<close> and \<open>log_linregress\<close> returns exactly what the
  underlying statistic returns on the two sequences with the rows removed in which either
  value is NaN, the order of the remaining rows preserved. The statistic is arbitrary.
\<close>

theorem masking_drops_nan_rows:
  assumes "length log_xs = length log_ys"
  shows "log_spearmanr stat log_xs log_ys =
           stat (map fst (rows_where both_not_nan log_xs log_ys))
                (map snd (rows_where both_not_nan log_xs log_ys)) \<and>
         log_pearsonr stat log_xs log_ys =
           stat (map fst (rows_where both_not_nan log_xs log_ys))
                (map snd (rows_where both_not_nan log_xs log_ys)) \<and>
         log_linregress stat log_xs log_ys =
           stat (map fst (rows_where both_not_nan log_xs log_ys))
                (map snd (rows_where both_not_nan log_xs log_ys))"
  using assms
  by (simp add: log_spearmanr_def log_pearsonr_def log_linregress_def log_mask_eq masked_pair_eq)

text \<open>An instance: the two rows holding a NaN go, the row holding an infinity stays.\<close>

theorem masking_drops_nan_rows_witness:
  "length [NaN, Fin 1, Fin 2, PInf] = length [Fin 1, Fin 2, NaN, Fin 3] \<and>
   log_spearmanr echo_stat [NaN, Fin 1, Fin 2, PInf] [Fin 1, Fin 2, NaN, Fin 3] =
     Inr ([Fin 1, PInf], [Fin 2, Fin 3]) \<and>
   log_pearsonr echo_stat [NaN, Fin 1, Fin 2, PInf] [Fin 1, Fin 2, NaN, Fin 3] =
     Inr ([Fin 1, PInf], [Fin 2, Fin 3]) \<and>
   log_linregress echo_stat [NaN, Fin 1, Fin 2, PInf] [Fin 1, Fin 2, NaN, Fin 3] =
     Inr ([Fin 1, PInf], [Fin 2, Fin 3])"
  using masking_drops_nan_rows
    [of "[NaN, Fin 1, Fin 2, PInf]" "[Fin 1, Fin 2, NaN, Fin 3]" echo_stat]
  by (simp add: rows_where_def both_not_nan_def echo_stat_def)

text \<open>
  With finite and non-NaN as the meaning of valid, the wrappers do not behave as if only
  the valid rows existed: of three rows, two of them valid, all three reach the
  statistic, while the statistic on the valid rows alone sees two.
\<close>

theorem masking_keeps_infinite_rows:
  "log_spearmanr echo_stat [PInf, Fin 1, Fin 2] [Fin 1, Fin 2, Fin 3] =
     Inr ([PInf, Fin 1, Fin 2], [Fin 1, Fin 2, Fin 3]) \<and>
   log_pearsonr echo_stat [PInf, Fin 1, Fin 2] [Fin 1, Fin 2, Fin 3] =
     Inr ([PInf, Fin 1, Fin 2], [Fin 1, Fin 2, Fin 3]) \<and>
   log_linregress echo_stat [PInf, Fin 1, Fin 2] [Fin 1, Fin 2, Fin 3] =
     Inr ([PInf, Fin 1, Fin 2], [Fin 1, Fin 2, Fin 3]) \<and>
   echo_stat (map fst (rows_where both_finite [PInf, Fin 1, Fin 2] [Fin 1, Fin 2, Fin 3]))
             (map snd (rows_where both_finite [PInf, Fin 1, Fin 2] [Fin 1, Fin 2, Fin 3])) =
     Inr ([Fin 1, Fin 2], [Fin 2, Fin 3])"
  by (simp add: log_spearmanr_def log_pearsonr_def log_linregress_def fit_defs echo_stat_def
      rows_where_def both_finite_def)

text \<open>
  Claim C6, as the code has it. For inputs of equal length the mask of the three
  wrappers exists, has the length of the inputs, and is true at an index if and only if
  neither value at that index is NaN.
\<close>

theorem log_mask_true_iff_not_nan:
  assumes "length log_xs = length log_ys"
  shows "\<exists>msk. log_mask log_xs log_ys = Inr msk \<and> length msk = length log_xs \<and>
           (\<forall>i < length log_xs. msk ! i = (\<not> isnan (log_xs ! i) \<and> \<not> isnan (log_ys ! i)))"
  using assms by (simp add: log_mask_eq both_not_nan_def)

text \<open>An instance with an infinity at index 0 and at index 2, and a NaN at index 1.\<close>

theorem log_mask_true_iff_not_nan_witness:
  "length [PInf, NaN, Fin 0] = length [Fin 0, Fin 1, NInf] \<and>
   (\<exists>msk. log_mask [PInf, NaN, Fin 0] [Fin 0, Fin 1, NInf] = Inr msk \<and> length msk = 3 \<and>
      msk ! 0 = True \<and> msk ! 1 = False \<and> msk ! 2 = True)"
proof -
  have len: "length [PInf, NaN, Fin 0] = length [Fin 0, Fin 1, NInf]" by simp
  from log_mask_true_iff_not_nan [OF len] obtain msk where
    m: "log_mask [PInf, NaN, Fin 0] [Fin 0, Fin 1, NInf] = Inr msk" "length msk = 3"
    and all: "\<forall>i < length [PInf, NaN, Fin 0].
      msk ! i = (\<not> isnan ([PInf, NaN, Fin 0] ! i) \<and> \<not> isnan ([Fin 0, Fin 1, NInf] ! i))"
    by auto
  from all have "msk ! 0 = True" "msk ! 1 = False" "msk ! 2 = True" by simp_all
  with m show ?thesis by simp
qed

text \<open>
  The mask is true at an index whose x value is infinite, and the row stays in the
  filtered pair.
\<close>

theorem log_mask_keeps_infinity:
  "log_mask [PInf] [Fin 0] = Inr [True] \<and> \<not> isfinite PInf \<and>
   log_spearmanr echo_stat [PInf] [Fin 0] = Inr ([PInf], [Fin 0])"
  by (simp add: log_spearmanr_def fit_defs echo_stat_def)

section \<open>Orthogonal distance regression\<close>

lemma odr_params_info [simp]: "odr_params u (out\<lparr>info := k\<rparr>) = odr_params u out"
  by (simp add: odr_params_def)

text \<open>
  Claim C2, as the code has it. \<open>fit_power_law_odr\<close> never reads the stop status of the
  solver: replacing the stop code of every solver output by any code \<open>k\<close> changes
  neither the fit that is returned nor the error that is raised. So a run that did not
  converge yields a normally returned fit, computed from the \<open>beta\<close> of that run.
\<close>

theorem fit_ignores_solver_status:
  "fit_power_law_odr (with_info k L) log_xs log_ys unit_exp =
   fit_power_law_odr L log_xs log_ys unit_exp"
  by (auto simp: fit_power_law_odr_def with_info_def Let_def bind_err_def
      split: sum.splits prod.splits)

text \<open>An instance: stop code 4 in place of 1, the same fit.\<close>

theorem fit_ignores_solver_status_witness:
  "fit_power_law_odr (with_info 4 stub_lib) [Fin 0, Fin 1] [Fin 0, Fin 1] False =
     Inr (Fin 1, Fin 1, Fin 1)"
  using fit_ignores_solver_status [of 4 stub_lib "[Fin 0, Fin 1]" "[Fin 0, Fin 1]" False]
  by (simp add: fit_defs stub_defs)

text \<open>
  A solver run that stops at the iteration limit: no error is raised, the fit is
  returned.
\<close>

theorem nonconverged_fit_returned:
  "fit_power_law_odr stalled_lib [Fin 0, Fin 1] [Fin 0, Fin 1] False = Inr (Fin 1, Fin 1, Fin 1)
   \<and> odr_run stalled_lib (lin_f (rnd stalled_lib)) [Fin 1, Fin 0] [Fin 0, Fin 1] [Fin 0, Fin 1] =
       Inr \<lparr>beta = [Fin 1, Fin 0], info = 4\<rparr>
   \<and> \<not> odr_converged \<lparr>beta = [Fin 1, Fin 0], info = 4\<rparr>"
  by (simp add: fit_defs stub_defs stalled_lib_def stalled_odr_run_def odr_converged_def)

text \<open>
  Claim C3. Whenever \<open>fit_power_law_odr\<close> with \<open>unit_exp\<close> returns, the exponent is
  exactly 1, and the prefactor is the exponential of the single parameter fitted by the
  solver, which was run on the masked data with the one-parameter model \<open>_slope_one\<close>,
  started from the intercept of the ordinary least-squares fit.
\<close>

theorem unit_exp_exponent_one:
  assumes "fit_power_law_odr L log_xs log_ys True = Inr (exponent, prefactor, r)"
  shows "exponent = Fin 1 \<and>
         (\<exists>msk xs' ys' ols out b0 bs.
            odr_mask log_xs log_ys = Inr msk \<and>
            masked_pair log_xs log_ys msk = Inr (xs', ys') \<and>
            linregress L xs' ys' = Inr ols \<and>
            odr_run L (slope_one (rnd L)) [fst (snd ols)] xs' ys' = Inr out \<and>
            beta out = b0 # bs \<and>
            prefactor = np_exp (rnd L) b0)"
  using assms
  by (auto simp: fit_power_law_odr_def odr_params_def Let_def bind_err_def
      split: sum.splits prod.splits list.splits)

text \<open>An instance on three rows, one of them dropped by the mask.\<close>

theorem unit_exp_exponent_one_witness:
  "fit_power_law_odr stub_lib [Fin 0, Fin 1, NaN] [Fin 2, Fin 3, Fin 4] True =
     Inr (Fin 1, Fin 1, Fin 1) \<and>
   (\<exists>msk xs' ys' ols out b0 bs.
      odr_mask [Fin 0, Fin 1, NaN] [Fin 2, Fin 3, Fin 4] = Inr msk \<and>
      masked_pair [Fin 0, Fin 1, NaN] [Fin 2, Fin 3, Fin 4] msk = Inr (xs', ys') \<and>
      linregress stub_lib xs' ys' = Inr ols \<and>
      odr_run stub_lib (slope_one (rnd stub_lib)) [fst (snd ols)] xs' ys' = Inr out \<and>
      beta out = b0 # bs \<and>
      Fin 1 = np_exp (rnd stub_lib) b0)"
proof -
  have h: "fit_power_law_odr stub_lib [Fin 0, Fin 1, NaN] [Fin 2, Fin 3, Fin 4] True =
      Inr (Fin 1, Fin 1, Fin 1)"
    by (simp add: fit_defs stub_defs)
  from unit_exp_exponent_one [OF h] h show ?thesis by simp
qed

text \<open>
  Claim C10. Whenever \<open>fit_power_law_odr\<close> returns both without and with \<open>unit_exp\<close>
  on the same input, the two calls return the same \<open>r\<close>, and that \<open>r\<close> is the first
  component of \<open>pearsonr\<close> on the masked data.
\<close>

theorem r_independent_of_unit_exp:
  assumes "fit_power_law_odr L log_xs log_ys False = Inr (e1, p1, r1)"
    and "fit_power_law_odr L log_xs log_ys True = Inr (e2, p2, r2)"
  shows "r1 = r2 \<and>
         (\<exists>msk xs' ys' P.
            odr_mask log_xs log_ys = Inr msk \<and>
            masked_pair log_xs log_ys msk = Inr (xs', ys') \<and>
            pearsonr L xs' ys' = Inr (r1, P))"
  using assms
  by (auto simp: fit_power_law_odr_def Let_def bind_err_def
      split: sum.splits prod.splits)

text \<open>An instance in which both calls return.\<close>

theorem r_independent_of_unit_exp_witness:
  "fit_power_law_odr stub_lib [Fin 0, Fin 1, NaN] [Fin 2, Fin 3, Fin 4] False =
     Inr (Fin 1, Fin 1, Fin 1) \<and>
   fit_power_law_odr stub_lib [Fin 0, Fin 1, NaN] [Fin 2, Fin 3, Fin 4] True =
     Inr (Fin 1, Fin 1, Fin 1) \<and>
   (\<exists>msk xs' ys' P.
      odr_mask [Fin 0, Fin 1, NaN] [Fin 2, Fin 3, Fin 4] = Inr msk \<and>
      masked_pair [Fin 0, Fin 1, NaN] [Fin 2, Fin 3, Fin 4] msk = Inr (xs', ys') \<and>
      pearsonr stub_lib xs' ys' = Inr (Fin 1, P))"
proof -
  have h1: "fit_power_law_odr stub_lib [Fin 0, Fin 1, NaN] [Fin 2, Fin 3, Fin 4] False =
      Inr (Fin 1, Fin 1, Fin 1)"
    by (simp add: fit_defs stub_defs)
  have h2: "fit_power_law_odr stub_lib [Fin 0, Fin 1, NaN] [Fin 2, Fin 3, Fin 4] True =
      Inr (Fin 1, Fin 1, Fin 1)"
    by (simp add: fit_defs stub_defs)
  from r_independent_of_unit_exp [OF h1 h2] h1 h2 show ?thesis by simp
qed

text \<open>
  With a library that rejects short input, a fit on fewer than two valid rows fails,
  constrained or not: at the latest the correlation raises.
\<close>

lemma fit_fails_short:
  assumes "rejects_short L" and "length xs = length ys"
    and "length (rows_where both_finite xs ys) < 2"
  shows "isl (fit_power_law_odr L xs ys u)"
proof -
  let ?a = "map fst (rows_where both_finite xs ys)"
  let ?b = "map snd (rows_where both_finite xs ys)"
  from assms(1,3) have "isl (pearsonr L ?a ?b)"
    by (simp add: rejects_short_def)
  then obtain e where "pearsonr L ?a ?b = Inl e"
    by (cases "pearsonr L ?a ?b") auto
  then show ?thesis
    using assms(2)
    by (auto simp: fit_power_law_odr_def odr_mask_eq masked_pair_eq Let_def bind_err_def
        split: sum.splits prod.splits)
qed



section \<open>The bootstrap\<close>

lemma boot_setup_eq:
  assumes "length xs = length ys"
  shows "boot_setup L xs ys fraction =
     bind_err (subset_size (rnd L) fraction (int (length (rows_where both_finite xs ys))))
       (\<lambda>n. Inr (map fst (rows_where both_finite xs ys), map snd (rows_where both_finite xs ys),
                 int (length (rows_where both_finite xs ys)), n))"
  using assms
  by (simp add: boot_setup_def isfinite_mask_eq masked_pair_eq np_sum_map2 Let_def)

lemma first_round_fails:
  assumes "rejects_short L" and "draws_size L" and "length mxs = length mys" and "n < 2"
  shows "\<exists>e. boot_loop L mxs mys tot n (Suc k) (es, ps, rs) g =
           (Inl e, snd (choice L g tot n))"
proof (cases "choice L g tot n")
  case (Pair res g')
  show ?thesis
  proof (cases res)
    case (Inl e)
    with Pair show ?thesis by simp
  next
    case (Inr idxs)
    with Pair assms(2) have len: "int (length idxs) = n"
      unfolding draws_size_def by blast
    show ?thesis
    proof (cases "np_take mxs idxs")
      case (Inl e)
      with Pair Inr show ?thesis by simp
    next
      case xs: (Inr xs_sub)
      show ?thesis
      proof (cases "np_take mys idxs")
        case (Inl e)
        with Pair Inr xs show ?thesis by simp
      next
        case ys: (Inr ys_sub)
        let ?lx = "map (np_log (rnd L)) xs_sub"
        let ?ly = "map (np_log (rnd L)) ys_sub"
        from np_take_length [OF xs] np_take_length [OF ys]
        have l: "length ?lx = length ?ly" "length ?lx = length idxs" by simp_all
        have "length (rows_where both_finite ?lx ?ly) \<le> length ?lx"
          by (rule rows_where_length_le)
        with l len assms(4) have "length (rows_where both_finite ?lx ?ly) < 2" by simp
        from fit_fails_short [OF assms(1) l(1) this, of False]
        obtain e where "fit_power_law_odr L ?lx ?ly False = Inl e"
          by (cases "fit_power_law_odr L ?lx ?ly False") auto
        with Pair Inr xs ys show ?thesis by simp
      qed
    qed
  qed
qed

text \<open>
  Claim C1, as the code has it. The bootstrap checks neither the fraction nor the subset
  size before its loop. What holds instead, on equal-length input with at least one round
  and given a library that rejects short input and whose draws have the size asked for:
  if the conversion of the subset size to an integer raises, the bootstrap raises that
  error and the generator is untouched; if the subset size is below 2, the bootstrap
  raises an error in its first round, the generator having made exactly one draw.
\<close>

theorem bootstrap_fails_small_subset:
  assumes "rejects_short L" and "draws_size L" and "length xs = length ys" and "0 < rounds"
    and "\<forall>n. subset_size (rnd L) fraction (int (length (rows_where both_finite xs ys))) = Inr n
           \<longrightarrow> n < 2"
  shows "(\<exists>e. subset_size (rnd L) fraction (int (length (rows_where both_finite xs ys))) = Inl e \<and>
            bootstrap_power_law_odr L xs ys fraction rounds g = (Inl e, g)) \<or>
         (\<exists>e n. subset_size (rnd L) fraction (int (length (rows_where both_finite xs ys))) = Inr n \<and>
            bootstrap_power_law_odr L xs ys fraction rounds g =
              (Inl e, snd (choice L g (int (length (rows_where both_finite xs ys))) n)))"
proof (cases "subset_size (rnd L) fraction (int (length (rows_where both_finite xs ys)))")
  case (Inl e)
  with assms(3) show ?thesis
    by (simp add: bootstrap_power_law_odr_def boot_setup_eq)
next
  case (Inr n)
  with assms(5) have n: "n < 2" by simp
  from assms(4) obtain k where k: "nat rounds = Suc k"
    by (cases "nat rounds") auto
  let ?rows = "rows_where both_finite xs ys"
  have "\<exists>e. boot_loop L (map fst ?rows) (map snd ?rows) (int (length ?rows)) n (Suc k)
      ([], [], []) g = (Inl e, snd (choice L g (int (length ?rows)) n))"
    by (rule first_round_fails [OF assms(1,2) _ n]) simp
  with Inr assms(3) k show ?thesis
    by (simp add: bootstrap_power_law_odr_def boot_setup_eq)
qed

text \<open>
  An instance: three valid points, fraction one half, subset size 1, three rounds. The
  run fails and the generator has made one draw of one index.
\<close>

theorem bootstrap_fails_small_subset_witness:
  "rejects_short stub_lib \<and> draws_size stub_lib \<and>
   length [Fin 1, Fin 2, Fin 4] = length [Fin 2, Fin 4, Fin 8] \<and> (0::int) < 3 \<and>
   subset_size (rnd stub_lib) (Fin (1 / 2))
     (int (length (rows_where both_finite [Fin 1, Fin 2, Fin 4] [Fin 2, Fin 4, Fin 8]))) = Inr 1 \<and>
   (\<exists>e. bootstrap_power_law_odr stub_lib [Fin 1, Fin 2, Fin 4] [Fin 2, Fin 4, Fin 8]
            (Fin (1 / 2)) 3 0 = (Inl e, 1))"
proof -
  have r: "rejects_short stub_lib"
    by (simp add: rejects_short_def stub_defs)
  have d: "draws_size stub_lib"
    by (auto simp: draws_size_def stub_defs split: if_splits)
  have len: "length [Fin 1, Fin 2, Fin 4] = length [Fin 2, Fin 4, Fin 8]" by simp
  have pos: "(0::int) < 3" by simp
  have s: "subset_size (rnd stub_lib) (Fin (1 / 2))
     (int (length (rows_where both_finite [Fin 1, Fin 2, Fin 4] [Fin 2, Fin 4, Fin 8]))) = Inr 1"
    by (simp add: subset_size_def rows_where_def both_finite_def stub_lib_def)
  then have small: "\<forall>n. subset_size (rnd stub_lib) (Fin (1 / 2))
     (int (length (rows_where both_finite [Fin 1, Fin 2, Fin 4] [Fin 2, Fin 4, Fin 8]))) = Inr n
     \<longrightarrow> n < 2"
    by simp
  have c: "snd (choice stub_lib 0
     (int (length (rows_where both_finite [Fin 1, Fin 2, Fin 4] [Fin 2, Fin 4, Fin 8]))) 1) = 1"
    by (simp add: stub_defs rows_where_def both_finite_def)
  from bootstrap_fails_small_subset [OF r d len pos small, of 0] s c
  have "\<exists>e. bootstrap_power_law_odr stub_lib [Fin 1, Fin 2, Fin 4] [Fin 2, Fin 4, Fin 8]
            (Fin (1 / 2)) 3 0 = (Inl e, 1)"
    by auto
  with r d len s show ?thesis by simp
qed

text \<open>
  Calls that return normally: fraction 2 and fraction -1 with no rounds, no valid point
  at all with no rounds, and fraction 2 with one round, which resamples four indices
  from two valid points and returns one fit.
\<close>

theorem bootstrap_unvalidated_returns:
  "bootstrap_power_law_odr stub_lib [Fin 1, Fin 2, Fin 4] [Fin 2, Fin 4, Fin 8] (Fin 2) 0 0 =
     (Inr ([], [], []), 0) \<and>
   bootstrap_power_law_odr stub_lib [Fin 1, Fin 2, Fin 4] [Fin 2, Fin 4, Fin 8] (Fin (- 1)) 0 0 =
     (Inr ([], [], []), 0) \<and>
   bootstrap_power_law_odr stub_lib [NaN] [Fin 2] (Fin (9 / 10)) 0 0 = (Inr ([], [], []), 0) \<and>
   bootstrap_power_law_odr stub_lib [Fin 1, Fin 2] [Fin 2, Fin 4] (Fin 2) 1 0 =
     (Inr ([Fin 1], [Fin 1], [Fin 1]), 4)"
  by (simp add: boot_defs fit_defs stub_defs eval_nat_numeral)

text \<open>
  Claim C9, as the code has it. On equal-length input and with no rounds, the bootstrap
  returns three empty sequences, leaving the generator untouched, exactly when the float
  product of the fraction and the number of valid points is finite; no other property of
  the fraction or of the number of valid points matters.
\<close>

theorem bootstrap_no_rounds:
  assumes "length xs = length ys" and "rounds \<le> 0"
  shows "(bootstrap_power_law_odr L xs ys fraction rounds g = (Inr ([], [], []), g)) =
         isfinite (fmul (rnd L) fraction (Fin (real (length (rows_where both_finite xs ys)))))"
proof (cases "fmul (rnd L) fraction (Fin (real (length (rows_where both_finite xs ys))))")
  case (Fin p)
  with assms show ?thesis
    by (simp add: bootstrap_power_law_odr_def boot_setup_eq subset_size_def)
next
  case PInf
  with assms show ?thesis
    by (simp add: bootstrap_power_law_odr_def boot_setup_eq subset_size_def)
next
  case NInf
  with assms show ?thesis
    by (simp add: bootstrap_power_law_odr_def boot_setup_eq subset_size_def)
next
  case NaN
  with assms show ?thesis
    by (simp add: bootstrap_power_law_odr_def boot_setup_eq subset_size_def)
qed

text \<open>An instance: fraction 7, one valid point of two, no rounds.\<close>

theorem bootstrap_no_rounds_witness:
  "length [Fin 1, NaN] = length [Fin 2, Fin 3] \<and> (0::int) \<le> 0 \<and>
   isfinite (fmul (rnd stub_lib) (Fin 7)
     (Fin (real (length (rows_where both_finite [Fin 1, NaN] [Fin 2, Fin 3]))))) \<and>
   bootstrap_power_law_odr stub_lib [Fin 1, NaN] [Fin 2, Fin 3] (Fin 7) 0 5 =
     (Inr ([], [], []), 5)"
proof -
  have len: "length [Fin 1, NaN] = length [Fin 2, Fin 3]" by simp
  have fin: "isfinite (fmul (rnd stub_lib) (Fin 7)
     (Fin (real (length (rows_where both_finite [Fin 1, NaN] [Fin 2, Fin 3])))))"
    by (simp add: stub_lib_def)
  from bootstrap_no_rounds [OF len, of 0 stub_lib "Fin 7" 5] fin len show ?thesis by simp
qed

text \<open>
  With no rounds and a fraction that is NaN or infinite, the conversion of the subset
  size to an integer raises.
\<close>

theorem bootstrap_nan_fraction_raises:
  "bootstrap_power_law_odr stub_lib [Fin 1, Fin 2] [Fin 1, Fin 2] NaN 0 0 = (Inl ValueError, 0) \<and>
   bootstrap_power_law_odr stub_lib [Fin 1, Fin 2] [Fin 1, Fin 2] PInf 0 0 =
     (Inl OverflowError, 0)"
  by (simp add: boot_defs fit_defs stub_defs inf_times_def)










end
